theory Spec2Isabelle
  imports Main "HOL-Library.Word"
begin

section \<open>Go values used by the precompile container factory\<close>

text \<open>
  A Go \<^verbatim>\<open>string\<close> that holds a name or a message is valid UTF-8 text. It is
  represented by the sequence of its code points, which is what \<^verbatim>\<open>[]rune(name)\<close>
  yields and what \<^verbatim>\<open>string(ret)\<close> consumes; a \<^verbatim>\<open>rune\<close> is a signed integer.
  \<open>go\<close> turns an ASCII literal into such a string.
\<close>

type_synonym rune = int
type_synonym gostring = "rune list"
type_synonym byte = "8 word"

definition rune_of :: "char \<Rightarrow> rune" where
  "rune_of c = int (of_char c)"

definition go :: "string \<Rightarrow> gostring" where
  "go s = map rune_of s"

text \<open>
  Errors are values. \<open>New\<close> stands for \<^verbatim>\<open>errors.New\<close> and for \<^verbatim>\<open>fmt.Errorf\<close>
  with its message formatted; the three sentinel errors are declared in packages that
  are not part of the sources at hand. A run-time panic is not an error value: a
  \<open>failure\<close> is either of the two, and a call returns \<open>failure + 'a\<close>.
\<close>

datatype error =
    New gostring
  | ErrWrongContainerFactory
  | ErrNoPrecompileMethodForABIMethod
  | ErrInvalidHexAddress
  | Wrapped error gostring

datatype failure = Error error | Panic gostring

definition Wrap :: "error \<Rightarrow> gostring \<Rightarrow> error" where
  \<comment> \<open>Modelled from the spec: \<^verbatim>\<open>errorslib.Wrap\<close> (package lib/errors) attaches the
      message to the error as context; the wrapped error stays recognisable.\<close>
  "Wrap err msg = Wrapped err msg"

definition statelessContainerName :: gostring where
  "statelessContainerName = go ''StatelessContainerImpl''"

definition statefulContainerName :: gostring where
  "statefulContainerName = go ''StatefulContainerImpl''"

section \<open>Name normalisation\<close>

definition MaxASCII :: rune where
  "MaxASCII = 127"

definition ToLower :: "(rune \<Rightarrow> rune) \<Rightarrow> rune \<Rightarrow> rune" where
  \<comment> \<open>\<^verbatim>\<open>unicode.ToLower\<close> of the Go standard library. Its Unicode case table,
      \<^verbatim>\<open>To(LowerCase, r)\<close>, consulted for runes beyond ASCII only, is the parameter.\<close>
  "ToLower toLowerCase r =
     (if r \<le> MaxASCII then
        (if rune_of CHR ''A'' \<le> r \<and> r \<le> rune_of CHR ''Z''
         then r + (rune_of CHR ''a'' - rune_of CHR ''A'') else r)
      else toLowerCase r)"

definition formatName :: "(rune \<Rightarrow> rune) \<Rightarrow> gostring \<Rightarrow> gostring" where
  "formatName toLowerCase name =
     (if length name = 0 then name
      else (let ret = name in ret[0 := ToLower toLowerCase (ret ! 0)]))"

section \<open>ABI descriptors, reflected methods and their types\<close>

text \<open>
  \<^verbatim>\<open>abi.Method\<close> (go-ethereum): of its fields the table builder reads the name, the
  canonical signature string and the precomputed selector bytes. The descriptor set
  \<^verbatim>\<open>map[string]abi.Method\<close> is an association list: lookup is \<open>map_of\<close>, and the
  order of the list is the order in which \<^verbatim>\<open>range\<close> happens to visit the map.
\<close>

record abi_Method =
  Name :: gostring
  Sig :: gostring
  ID :: "byte list"

datatype Kind =
    reflect_Invalid | reflect_Bool
  | reflect_Int | reflect_Int8 | reflect_Int16 | reflect_Int32 | reflect_Int64
  | reflect_Uint | reflect_Uint8 | reflect_Uint16 | reflect_Uint32 | reflect_Uint64
  | reflect_Uintptr | reflect_Float32 | reflect_Float64
  | reflect_Complex64 | reflect_Complex128
  | reflect_Array | reflect_Chan | reflect_Func | reflect_Interface | reflect_Map
  | reflect_Pointer | reflect_Slice | reflect_String | reflect_Struct
  | reflect_UnsafePointer

text \<open>
  A \<^verbatim>\<open>reflect.Type\<close> by what the validation observes of it: \<^verbatim>\<open>Name()\<close>,
  \<^verbatim>\<open>String()\<close>, \<^verbatim>\<open>Kind()\<close> and the element type that \<^verbatim>\<open>Elem()\<close> returns.
\<close>

datatype rtype =
  RType (TypeName: gostring) (TypeString: gostring) (TypeKind: Kind) (TypeElem: "rtype option")

definition Elem :: "rtype \<Rightarrow> failure + rtype" where
  \<comment> \<open>\<^verbatim>\<open>reflect.Type.Elem\<close> panics if the type's Kind is not Array, Chan, Map, Pointer
      or Slice.\<close>
  "Elem t =
     (if TypeKind t \<in> {reflect_Array, reflect_Chan, reflect_Map, reflect_Pointer, reflect_Slice} then
        (case TypeElem t of
           Some e \<Rightarrow> Inr e
         | None \<Rightarrow> Inl (Panic (go ''reflect: Elem of invalid type '' @ TypeString t)))
      else Inl (Panic (go ''reflect: Elem of invalid type '' @ TypeString t)))"

text \<open>
  A \<^verbatim>\<open>reflect.Method\<close>: \<open>implName\<close> is its \<^verbatim>\<open>Name\<close>, \<open>implOut\<close> the list of the
  result types of its \<^verbatim>\<open>Type\<close> (\<^verbatim>\<open>NumOut()\<close> is its length, \<^verbatim>\<open>Out(i)\<close> its
  \<open>i\<close>-th element) and \<open>implFunc\<close> its \<^verbatim>\<open>Func\<close>, an opaque callable.
\<close>

record 'f reflect_Method =
  implName :: gostring
  implOut :: "rtype list"
  implFunc :: 'f

record 'f Method =
  abiMethod :: abi_Method
  abiSig :: gostring
  execute :: 'f

definition NewMethod :: "abi_Method \<Rightarrow> gostring \<Rightarrow> 'f \<Rightarrow> 'f Method" where
  \<comment> \<open>Modelled from the spec: the constructor of the Method Record (its file is not among
      the sources) binds the ABI descriptor, its signature string and the callable.\<close>
  "NewMethod am sig ex = \<lparr>abiMethod = am, abiSig = sig, execute = ex\<rparr>"

definition UnsafeBytesToStr :: "byte list \<Rightarrow> byte list" where
  \<comment> \<open>Modelled from the spec: the selector bytes used as a raw byte-string key, with no
      copy and no hashing (package lib/utils).\<close>
  "UnsafeBytesToStr bz = bz"

section \<open>The table builder\<close>

definition validateReturnTypes :: "'f reflect_Method \<Rightarrow> failure + unit" where
  "validateReturnTypes implMethod =
     (if length (implOut implMethod) \<noteq> 2 then
        Inl (Error (New (go ''precompile methods must return ([]any, error), but found wrong number of return types for precompile method'')))
      else
        let firstReturnType = implOut implMethod ! 0 in
        case (if TypeKind firstReturnType \<noteq> reflect_Slice then
                (case Elem firstReturnType of
                   Inl f \<Rightarrow> Inl f
                 | Inr e \<Rightarrow> Inr (TypeKind e \<noteq> reflect_Interface))
              else Inr False) of
          Inl f \<Rightarrow> Inl f
        | Inr True \<Rightarrow>
            Inl (Error (New (go ''first parameter should be []any, but found ''
                              @ TypeString firstReturnType
                              @ go '' for precompile method'')))
        | Inr False \<Rightarrow>
            let secondReturnType = implOut implMethod ! 1 in
            if TypeName secondReturnType \<noteq> go ''error'' then
              Inl (Error (New (go ''second parameter should be error, but found ''
                                @ TypeString secondReturnType
                                @ go '' for precompile method'')))
            else Inr ())"

type_synonym 'f idsToMethods = "byte list \<rightharpoonup> 'f Method"

text \<open>
  The first loop of \<^verbatim>\<open>buildIdsToMethods\<close>, over the exported methods of the
  implementation's type in index order; the table is passed along. An error of the
  validation is wrapped with the normalised name; a panic is not caught.
\<close>

fun addImplMethods ::
  "(rune \<Rightarrow> rune) \<Rightarrow> (gostring \<times> abi_Method) list \<Rightarrow> 'f reflect_Method list
     \<Rightarrow> 'f idsToMethods \<Rightarrow> failure + 'f idsToMethods" where
  "addImplMethods lc pcABI [] idsToMethods = Inr idsToMethods"
| "addImplMethods lc pcABI (implMethod # rest) idsToMethods =
     (let implMethodName = formatName lc (implName implMethod) in
      case map_of pcABI implMethodName of
        None \<Rightarrow> addImplMethods lc pcABI rest idsToMethods
      | Some abiM \<Rightarrow>
          (case validateReturnTypes implMethod of
             Inl (Error err) \<Rightarrow> Inl (Error (Wrap err implMethodName))
           | Inl (Panic msg) \<Rightarrow> Inl (Panic msg)
           | Inr _ \<Rightarrow>
               addImplMethods lc pcABI rest
                 (idsToMethods(UnsafeBytesToStr (ID abiM) \<mapsto>
                    NewMethod abiM (Sig abiM) (implFunc implMethod)))))"

text \<open>The second loop: every ABI method must have an entry under its selector.\<close>

fun verifyABIMethods ::
  "'f idsToMethods \<Rightarrow> (gostring \<times> abi_Method) list \<Rightarrow> failure + 'f idsToMethods" where
  "verifyABIMethods idsToMethods [] = Inr idsToMethods"
| "verifyABIMethods idsToMethods ((key, abiM) # rest) =
     (if idsToMethods (UnsafeBytesToStr (ID abiM)) = None then
        Inl (Error (Wrap ErrNoPrecompileMethodForABIMethod (Name abiM)))
      else verifyABIMethods idsToMethods rest)"

definition buildIdsToMethods ::
  "(rune \<Rightarrow> rune) \<Rightarrow> (gostring \<times> abi_Method) list \<Rightarrow> 'f reflect_Method list
     \<Rightarrow> failure + 'f idsToMethods" where
  "buildIdsToMethods lc pcABI contractImpl =
     (case addImplMethods lc pcABI contractImpl Map.empty of
        Inl f \<Rightarrow> Inl f
      | Inr idsToMethods \<Rightarrow> verifyABIMethods idsToMethods pcABI)"

section \<open>The container factories\<close>

text \<open>
  A registrable implementation by what the factories ask of it: whether its dynamic
  type satisfies \<^verbatim>\<open>StatelessImpl\<close> or \<^verbatim>\<open>StatefulImpl\<close> (the two interfaces are
  declared outside the sources at hand), what \<^verbatim>\<open>ABIMethods()\<close> returns, the exported
  methods that reflection enumerates, and its custom value decoders.
\<close>

record ('f, 'd) Registrable =
  isStatelessImpl :: bool
  isStatefulImpl :: bool
  ABIMethods :: "(gostring \<times> abi_Method) list"
  reflectMethods :: "'f reflect_Method list"
  CustomValueDecoders :: "gostring \<rightharpoonup> 'd"

definition GetAs_StatelessImpl :: "('f, 'd) Registrable \<Rightarrow> ('f, 'd) Registrable option" where
  \<comment> \<open>Modelled from the spec: \<^verbatim>\<open>utils.GetAs[StatelessImpl]\<close>, a type assertion that
      yields the same object when it has the capability.\<close>
  "GetAs_StatelessImpl rp = (if isStatelessImpl rp then Some rp else None)"

definition GetAs_StatefulImpl :: "('f, 'd) Registrable \<Rightarrow> ('f, 'd) Registrable option" where
  \<comment> \<open>Modelled from the spec: \<^verbatim>\<open>utils.GetAs[StatefulImpl]\<close>, likewise.\<close>
  "GetAs_StatefulImpl rp = (if isStatefulImpl rp then Some rp else None)"

datatype ('f, 'd) PrecompileContainer =
    Stateless "('f, 'd) Registrable"
  | Stateful "('f, 'd) Registrable" "'f idsToMethods"

fun registrable :: "('f, 'd) PrecompileContainer \<Rightarrow> ('f, 'd) Registrable" where
  "registrable (Stateless rp) = rp"
| "registrable (Stateful rp idsToMethods) = rp"

definition NewStateful ::
  "('f, 'd) Registrable \<Rightarrow> 'f idsToMethods \<Rightarrow> failure + ('f, 'd) PrecompileContainer" where
  \<comment> \<open>Modelled from the spec: the constructor of the stateful container (its file is not
      among the sources) wraps the table in a container bound to the implementation.\<close>
  "NewStateful rp idsToMethods = Inr (Stateful rp idsToMethods)"

definition StatelessFactory_Build ::
  "('f, 'd) Registrable \<Rightarrow> 'p \<Rightarrow> failure + ('f, 'd) PrecompileContainer" where
  "StatelessFactory_Build rp p =
     (case GetAs_StatelessImpl rp of
        None \<Rightarrow> Inl (Error (Wrap ErrWrongContainerFactory statelessContainerName))
      | Some pc \<Rightarrow> Inr (Stateless pc))"

text \<open>
  \<^verbatim>\<open>StatefulFactory.Build\<close> calls out three times, in this order: \<^verbatim>\<open>SetPlugin\<close> on
  the implementation, the table builder, and \<^verbatim>\<open>NewStateful\<close>. The calls are
  appended to a log that is passed in and returned with the result.
\<close>

datatype 'p call = Call_SetPlugin 'p | Call_buildIdsToMethods | Call_NewStateful

fun is_SetPlugin :: "'p call \<Rightarrow> bool" where
  "is_SetPlugin (Call_SetPlugin p) = True"
| "is_SetPlugin Call_buildIdsToMethods = False"
| "is_SetPlugin Call_NewStateful = False"

definition StatefulFactory_Build ::
  "(rune \<Rightarrow> rune) \<Rightarrow> ('f, 'd) Registrable \<Rightarrow> 'p \<Rightarrow> 'p call list
     \<Rightarrow> (failure + ('f, 'd) PrecompileContainer) \<times> 'p call list" where
  "StatefulFactory_Build lc rp p log =
     (case GetAs_StatefulImpl rp of
        None \<Rightarrow> (Inl (Error (Wrap ErrWrongContainerFactory statefulContainerName)), log)
      | Some sci \<Rightarrow>
          let log1 = log @ [Call_SetPlugin p];
              log2 = log1 @ [Call_buildIdsToMethods]
          in (case buildIdsToMethods lc (ABIMethods sci) (reflectMethods sci) of
                Inl err \<Rightarrow> (Inl err, log2)
              | Inr idsToMethods \<Rightarrow>
                  (NewStateful rp idsToMethods, log2 @ [Call_NewStateful])))"

section \<open>Module contracts\<close>

text \<open>
  The distribution contract's \<^verbatim>\<open>CustomValueDecoders\<close>. The attribute key (a constant
  of the Cosmos SDK) and the decoder (a function of the log package) are parameters;
  the receiver is not read.
\<close>

definition Contract_CustomValueDecoders :: "gostring \<Rightarrow> 'd \<Rightarrow> 'c \<Rightarrow> (gostring \<rightharpoonup> 'd)" where
  "Contract_CustomValueDecoders AttributeKeyWithdrawAddress ConvertAccAddressFromBech32 c =
     [AttributeKeyWithdrawAddress \<mapsto> ConvertAccAddressFromBech32]"

text \<open>
  The staking contract's two methods with a variadic argument list. A value of type
  \<^verbatim>\<open>any\<close> carries its dynamic type; \<^verbatim>\<open>common.Address\<close> is one of them. Indexing a
  slice out of range panics with the message of the Go runtime, which prints the index
  and the length in decimal (\<open>itoa\<close>). The query helpers and the address conversions live
  outside the sources at hand and are parameters.
\<close>

type_synonym Address = "byte list"

datatype any =
    AnyAddress Address
  | AnyBigInt int
  | AnyString gostring
  | AnyBool bool
  | AnyInt64 int
  | AnySlice "any list"
  | AnyNil

fun itoa :: "nat \<Rightarrow> gostring" where
  "itoa n =
     (if n < 10 then [rune_of CHR ''0'' + int n]
      else itoa (n div 10) @ [rune_of CHR ''0'' + int (n mod 10)])"

definition index :: "'a list \<Rightarrow> nat \<Rightarrow> failure + 'a" where
  "index xs i =
     (if i < length xs then Inr (xs ! i)
      else Inl (Panic (go ''runtime error: index out of range ['' @ itoa i
                        @ go ''] with length '' @ itoa (length xs))))"

fun GetAs_Address :: "any \<Rightarrow> Address option" where
  \<comment> \<open>Modelled from the spec: \<^verbatim>\<open>utils.GetAs[common.Address]\<close>, a type assertion.\<close>
  "GetAs_Address (AnyAddress a) = Some a"
| "GetAs_Address _ = None"

definition GetValidatorAddrInput ::
  "('ctx \<Rightarrow> gostring \<Rightarrow> failure + any list) \<Rightarrow> (Address \<Rightarrow> gostring)
     \<Rightarrow> 'ctx \<Rightarrow> 'evm \<Rightarrow> Address \<Rightarrow> int \<Rightarrow> any list \<Rightarrow> failure + any list" where
  "GetValidatorAddrInput validatorHelper ValAddressString ctx evm caller value args =
     (case index args 0 of
        Inl f \<Rightarrow> Inl f
      | Inr arg0 \<Rightarrow>
          (case GetAs_Address arg0 of
             None \<Rightarrow> Inl (Error ErrInvalidHexAddress)
           | Some val \<Rightarrow> validatorHelper ctx (ValAddressString val)))"

definition GetDelegatorValidatorsAddrInput ::
  "('ctx \<Rightarrow> gostring \<Rightarrow> failure + any list) \<Rightarrow> (Address \<Rightarrow> gostring)
     \<Rightarrow> 'ctx \<Rightarrow> 'evm \<Rightarrow> Address \<Rightarrow> int \<Rightarrow> any list \<Rightarrow> failure + any list" where
  "GetDelegatorValidatorsAddrInput delegatorValidatorsHelper Bech32FromEthAddress
       ctx evm caller value args =
     (case index args 0 of
        Inl f \<Rightarrow> Inl f
      | Inr arg0 \<Rightarrow>
          (case GetAs_Address arg0 of
             None \<Rightarrow> Inl (Error ErrInvalidHexAddress)
           | Some del \<Rightarrow> delegatorValidatorsHelper ctx (Bech32FromEthAddress del)))"

section \<open>A worked example\<close>

text \<open>
  An ABI with \<open>getValidator(address)\<close> and \<open>delegate(address,uint256)\<close>, and an
  implementation that exports \<open>Delegate\<close>, \<open>GetValidator\<close> and a helper that is no
  ABI method. The selector bytes are arbitrary; callables are numbered.
\<close>

definition anySliceType :: rtype where
  "anySliceType =
     RType [] (go ''[]interface {}'') reflect_Slice
       (Some (RType [] (go ''interface {}'') reflect_Interface None))"

definition intSliceType :: rtype where
  "intSliceType =
     RType [] (go ''[]int'') reflect_Slice (Some (RType (go ''int'') (go ''int'') reflect_Int None))"

definition intType :: rtype where
  "intType = RType (go ''int'') (go ''int'') reflect_Int None"

definition errorType :: rtype where
  "errorType = RType (go ''error'') (go ''error'') reflect_Interface None"

definition getValidatorABI :: abi_Method where
  "getValidatorABI =
     \<lparr>Name = go ''getValidator'', Sig = go ''getValidator(address)'', ID = [1, 2, 3, 4]\<rparr>"

definition delegateABI :: abi_Method where
  "delegateABI =
     \<lparr>Name = go ''delegate'', Sig = go ''delegate(address,uint256)'', ID = [5, 6, 7, 8]\<rparr>"

definition exampleABI :: "(gostring \<times> abi_Method) list" where
  "exampleABI = [(go ''getValidator'', getValidatorABI), (go ''delegate'', delegateABI)]"

definition DelegateImpl :: "nat reflect_Method" where
  "DelegateImpl = \<lparr>implName = go ''Delegate'', implOut = [anySliceType, errorType], implFunc = 0\<rparr>"

definition GetValidatorImpl :: "nat reflect_Method" where
  "GetValidatorImpl =
     \<lparr>implName = go ''GetValidator'', implOut = [anySliceType, errorType], implFunc = 1\<rparr>"

definition HelperImpl :: "nat reflect_Method" where
  "HelperImpl = \<lparr>implName = go ''HelperSortAddrs'', implOut = [intType], implFunc = 2\<rparr>"

definition exampleImpl :: "nat reflect_Method list" where
  "exampleImpl = [DelegateImpl, GetValidatorImpl, HelperImpl]"

definition exampleTable :: "nat idsToMethods" where
  "exampleTable =
     [[5, 6, 7, 8] \<mapsto> NewMethod delegateABI (Sig delegateABI) 0,
      [1, 2, 3, 4] \<mapsto> NewMethod getValidatorABI (Sig getValidatorABI) 1]"

text \<open>
  Variants of the example: \<open>GetValidator\<close> with one result only, with a slice of
  integers or a plain integer as its first result; an ABI in which both methods carry
  the same selector; and a method set in which \<open>K\<close> and the Kelvin sign
  (U+212A, an upper-case letter whose lower case is \<open>k\<close>) normalise to one name.
\<close>

definition GetValidatorOneResult :: "nat reflect_Method" where
  "GetValidatorOneResult =
     \<lparr>implName = go ''GetValidator'', implOut = [anySliceType], implFunc = 1\<rparr>"

definition GetValidatorIntSlice :: "nat reflect_Method" where
  "GetValidatorIntSlice =
     \<lparr>implName = go ''GetValidator'', implOut = [intSliceType, errorType], implFunc = 1\<rparr>"

definition GetValidatorInt :: "nat reflect_Method" where
  "GetValidatorInt =
     \<lparr>implName = go ''GetValidator'', implOut = [intType, errorType], implFunc = 1\<rparr>"

definition collidingABI :: "(gostring \<times> abi_Method) list" where
  "collidingABI =
     [(go ''getValidator'', getValidatorABI), (go ''delegate'', delegateABI\<lparr>ID := [1, 2, 3, 4]\<rparr>)]"





definition exampleContract :: "(nat, nat) Registrable" where
  "exampleContract =
     \<lparr>isStatelessImpl = False, isStatefulImpl = True, ABIMethods = exampleABI,
      reflectMethods = exampleImpl,
      CustomValueDecoders = Contract_CustomValueDecoders (go ''withdraw_address'') 0 ()\<rparr>"

definition intSliceContract :: "(nat, nat) Registrable" where
  "intSliceContract = exampleContract\<lparr>reflectMethods := [DelegateImpl, GetValidatorIntSlice]\<rparr>"

definition missingDelegateContract :: "(nat, nat) Registrable" where
  "missingDelegateContract = exampleContract\<lparr>reflectMethods := [GetValidatorImpl, HelperImpl]\<rparr>"

definition statelessContract :: "(nat, nat) Registrable" where
  "statelessContract =
     \<lparr>isStatelessImpl = True, isStatefulImpl = False, ABIMethods = [],
      reflectMethods = [], CustomValueDecoders = Map.empty\<rparr>"

section \<open>Properties of name normalisation\<close>

lemma rune_of_simps:
  "rune_of CHR ''A'' = 65" "rune_of CHR ''Z'' = 90"
  "rune_of CHR ''a'' = 97" "rune_of CHR ''z'' = 122"
  by (simp_all add: rune_of_def)

lemma ToLower_ascii_upper:
  "rune_of CHR ''A'' \<le> r \<Longrightarrow> r \<le> rune_of CHR ''Z'' \<Longrightarrow> ToLower lc r = r + 32"
  by (simp add: ToLower_def MaxASCII_def rune_of_simps)

lemma ToLower_ascii_other:
  "r \<le> MaxASCII \<Longrightarrow> \<not> (rune_of CHR ''A'' \<le> r \<and> r \<le> rune_of CHR ''Z'') \<Longrightarrow> ToLower lc r = r"
  unfolding ToLower_def by auto

lemma ToLower_beyond_ascii:
  "MaxASCII < r \<Longrightarrow> ToLower lc r = lc r"
  by (simp add: ToLower_def)

lemma formatName_Nil: "formatName lc [] = []"
  by (simp add: formatName_def)

lemma formatName_Cons: "formatName lc (r # rs) = ToLower lc r # rs"
  by (simp add: formatName_def)

lemma formatName_tail: "drop 1 (formatName lc name) = drop 1 name"
  by (cases name) (simp_all add: formatName_Nil formatName_Cons)

lemma formatName_length: "length (formatName lc name) = length name"
  by (cases name) (simp_all add: formatName_Nil formatName_Cons)

lemma formatName_GetValidator:
  "formatName lc (go ''GetValidator'') = go ''getValidator''"
  by (simp add: go_def rune_of_def formatName_Cons ToLower_def MaxASCII_def)

lemma formatName_GetActiveValidators:
  "formatName lc (go ''GetActiveValidators'') = go ''getActiveValidators''"
  by (simp add: go_def rune_of_def formatName_Cons ToLower_def MaxASCII_def)

section \<open>The table builder: validation and the two loops\<close>

lemma validateReturnTypes_Error_New:
  "validateReturnTypes m = Inl (Error e) \<Longrightarrow> \<exists>s. e = New s"
  unfolding validateReturnTypes_def Let_def Elem_def
  by (auto split: if_splits sum.splits bool.splits option.splits)

lemma addImplMethods_append:
  "addImplMethods lc abi (xs @ ys) t =
     (case addImplMethods lc abi xs t of Inl f \<Rightarrow> Inl f | Inr t' \<Rightarrow> addImplMethods lc abi ys t')"
  by (induction xs arbitrary: t)
     (auto simp add: Let_def split: option.splits sum.splits failure.splits)

lemma addImplMethods_filter:
  "addImplMethods lc abi (filter (\<lambda>m. map_of abi (formatName lc (implName m)) \<noteq> None) ms) t
     = addImplMethods lc abi ms t"
  by (induction ms arbitrary: t)
     (auto simp add: Let_def split: option.splits sum.splits failure.splits)

lemma addImplMethods_skip:
  "map_of abi (formatName lc (implName h)) = None \<Longrightarrow>
     addImplMethods lc abi (xs @ h # ys) t = addImplMethods lc abi (xs @ ys) t"
  by (simp add: addImplMethods_append split: sum.splits)

lemma addImplMethods_entry:
  "addImplMethods lc abi ms t = Inr t' \<Longrightarrow> t' sel = Some r \<Longrightarrow>
     t sel = Some r \<or>
     (\<exists>m\<in>set ms. \<exists>a. map_of abi (formatName lc (implName m)) = Some a \<and> sel = ID a
        \<and> r = NewMethod a (Sig a) (implFunc m) \<and> validateReturnTypes m = Inr ())"
proof (induction ms arbitrary: t)
  case Nil
  then show ?case by simp
next
  case (Cons m ms)
  show ?case
  proof (cases "map_of abi (formatName lc (implName m))")
    case None
    with Cons.prems have "addImplMethods lc abi ms t = Inr t'" by simp
    from Cons.IH [OF this Cons.prems(2)] show ?thesis by auto
  next
    case (Some a)
    with Cons.prems(1) have v: "validateReturnTypes m = Inr ()"
      and rest: "addImplMethods lc abi ms
        (t(UnsafeBytesToStr (ID a) \<mapsto> NewMethod a (Sig a) (implFunc m))) = Inr t'"
      by (auto simp add: Let_def split: sum.splits failure.splits)
    from Cons.IH [OF rest Cons.prems(2)] Some v show ?thesis
      by (auto simp add: UnsafeBytesToStr_def split: if_splits)
  qed
qed

lemma addImplMethods_mono:
  "addImplMethods lc abi ms t = Inr t' \<Longrightarrow> t sel \<noteq> None \<Longrightarrow> t' sel \<noteq> None"
proof (induction ms arbitrary: t)
  case Nil
  then show ?case by simp
next
  case (Cons m ms)
  show ?case
  proof (cases "map_of abi (formatName lc (implName m))")
    case None
    with Cons.prems have "addImplMethods lc abi ms t = Inr t'" by simp
    from Cons.IH [OF this Cons.prems(2)] show ?thesis .
  next
    case (Some a)
    with Cons.prems(1) have rest: "addImplMethods lc abi ms
        (t(UnsafeBytesToStr (ID a) \<mapsto> NewMethod a (Sig a) (implFunc m))) = Inr t'"
      by (auto simp add: Let_def split: sum.splits failure.splits)
    from Cons.prems(2) have "(t(UnsafeBytesToStr (ID a) \<mapsto> NewMethod a (Sig a) (implFunc m))) sel \<noteq> None"
      by simp
    from Cons.IH [OF rest this] show ?thesis .
  qed
qed

lemma addImplMethods_matched:
  "addImplMethods lc abi ms t = Inr t' \<Longrightarrow> m \<in> set ms \<Longrightarrow>
   map_of abi (formatName lc (implName m)) = Some a \<Longrightarrow> t' (ID a) \<noteq> None"
proof (induction ms arbitrary: t)
  case Nil
  then show ?case by simp
next
  case (Cons x ms)
  show ?case
  proof (cases "map_of abi (formatName lc (implName x))")
    case None
    with Cons.prems have rest: "addImplMethods lc abi ms t = Inr t'" and "m \<in> set ms"
      by auto
    from Cons.IH [OF rest this(2) Cons.prems(3)] show ?thesis .
  next
    case (Some b)
    with Cons.prems(1) have rest: "addImplMethods lc abi ms
        (t(UnsafeBytesToStr (ID b) \<mapsto> NewMethod b (Sig b) (implFunc x))) = Inr t'"
      by (auto simp add: Let_def split: sum.splits failure.splits)
    show ?thesis
    proof (cases "m = x")
      case True
      with Some Cons.prems(3) have "b = a" by simp
      then have "(t(UnsafeBytesToStr (ID b) \<mapsto> NewMethod b (Sig b) (implFunc x))) (ID a) \<noteq> None"
        by (simp add: UnsafeBytesToStr_def)
      from addImplMethods_mono [OF rest this] show ?thesis .
    next
      case False
      with Cons.prems(2) have "m \<in> set ms" by simp
      from Cons.IH [OF rest this Cons.prems(3)] show ?thesis .
    qed
  qed
qed


lemma addImplMethods_succeeds:
  "(\<And>m a. m \<in> set ms \<Longrightarrow> map_of abi (formatName lc (implName m)) = Some a
       \<Longrightarrow> validateReturnTypes m = Inr ())
   \<Longrightarrow> \<exists>t'. addImplMethods lc abi ms t = Inr t'"
  by (induction ms arbitrary: t)
     (auto simp add: Let_def split: option.splits sum.splits failure.splits)

lemma addImplMethods_fails:
  "addImplMethods lc abi ms t = Inl f \<Longrightarrow>
     \<exists>m\<in>set ms. map_of abi (formatName lc (implName m)) \<noteq> None \<and>
       ((\<exists>e. validateReturnTypes m = Inl (Error e) \<and> f = Error (Wrap e (formatName lc (implName m))))
        \<or> (\<exists>s. validateReturnTypes m = Inl (Panic s) \<and> f = Panic s))"
  by (induction ms arbitrary: t)
     (auto simp add: Let_def split: option.splits sum.splits failure.splits)



lemma verifyABIMethods_Inr:
  "verifyABIMethods t abi = Inr t' \<Longrightarrow> t' = t \<and> (\<forall>(k, a)\<in>set abi. t (ID a) \<noteq> None)"
  by (induction abi) (auto simp add: UnsafeBytesToStr_def split: if_splits)

lemma verifyABIMethods_Inl:
  "verifyABIMethods t abi = Inl f \<Longrightarrow>
     \<exists>(k, a)\<in>set abi. f = Error (Wrap ErrNoPrecompileMethodForABIMethod (Name a)) \<and> t (ID a) = None"
  by (induction abi) (auto simp add: UnsafeBytesToStr_def split: if_splits)

lemma verifyABIMethods_complete:
  "\<forall>(k, a)\<in>set abi. t (ID a) \<noteq> None \<Longrightarrow> verifyABIMethods t abi = Inr t"
  by (induction abi) (auto simp add: UnsafeBytesToStr_def)

lemma verifyABIMethods_missing:
  "(k, a) \<in> set abi \<Longrightarrow> t (ID a) = None \<Longrightarrow> \<exists>f. verifyABIMethods t abi = Inl f"
  by (induction abi) (auto simp add: UnsafeBytesToStr_def)

lemma buildIdsToMethods_Inr:
  "buildIdsToMethods lc abi ms = Inr t \<Longrightarrow>
     addImplMethods lc abi ms Map.empty = Inr t \<and> verifyABIMethods t abi = Inr t"
  by (auto simp add: buildIdsToMethods_def split: sum.splits dest: verifyABIMethods_Inr)

section \<open>The factories unfolded\<close>

lemma StatefulFactory_Build_stateful:
  "isStatefulImpl rp \<Longrightarrow>
     StatefulFactory_Build lc rp p log =
       (case buildIdsToMethods lc (ABIMethods rp) (reflectMethods rp) of
          Inl err \<Rightarrow> (Inl err, log @ [Call_SetPlugin p, Call_buildIdsToMethods])
        | Inr t \<Rightarrow> (Inr (Stateful rp t),
                    log @ [Call_SetPlugin p, Call_buildIdsToMethods, Call_NewStateful]))"
  by (simp add: StatefulFactory_Build_def GetAs_StatefulImpl_def NewStateful_def Let_def
      split: sum.splits)

lemma StatefulFactory_Build_not_stateful:
  "\<not> isStatefulImpl rp \<Longrightarrow>
     StatefulFactory_Build lc rp p log =
       (Inl (Error (Wrap ErrWrongContainerFactory (go ''StatefulContainerImpl''))), log)"
  by (simp add: StatefulFactory_Build_def GetAs_StatefulImpl_def statefulContainerName_def)

section \<open>The worked example, evaluated\<close>

lemma formatName_examples:
  "formatName lc (go ''Delegate'') = go ''delegate''"
  "formatName lc (go ''GetValidator'') = go ''getValidator''"
  "formatName lc (go ''HelperSortAddrs'') = go ''helperSortAddrs''"
  by (simp_all add: go_def rune_of_def formatName_Cons ToLower_def MaxASCII_def)

lemma go_neq:
  "go ''delegate'' \<noteq> go ''getValidator''"
  "go ''helperSortAddrs'' \<noteq> go ''getValidator''"
  "go ''helperSortAddrs'' \<noteq> go ''delegate''"
  "go ''getValidator'' \<noteq> go ''delegate''"
  "go ''getValidator'' \<noteq> go ''helperSortAddrs''"
  "go ''delegate'' \<noteq> go ''helperSortAddrs''"
  by (simp_all add: go_def rune_of_def)

lemma validate_examples:
  "validateReturnTypes DelegateImpl = Inr ()"
  "validateReturnTypes GetValidatorImpl = Inr ()"
  by (simp_all add: validateReturnTypes_def DelegateImpl_def GetValidatorImpl_def
      anySliceType_def errorType_def)

lemma map_of_exampleABI:
  "map_of exampleABI (go ''delegate'') = Some delegateABI"
  "map_of exampleABI (go ''getValidator'') = Some getValidatorABI"
  "map_of exampleABI (go ''helperSortAddrs'') = None"
  by (simp_all add: exampleABI_def go_neq)

lemma example_fields:
  "implName DelegateImpl = go ''Delegate''" "implFunc DelegateImpl = 0"
  "implName GetValidatorImpl = go ''GetValidator''" "implFunc GetValidatorImpl = 1"
  "implName HelperImpl = go ''HelperSortAddrs''" "implFunc HelperImpl = 2"
  "ID delegateABI = [5, 6, 7, 8]" "ID getValidatorABI = [1, 2, 3, 4]"
  "Name delegateABI = go ''delegate''" "Name getValidatorABI = go ''getValidator''"
  by (simp_all add: DelegateImpl_def GetValidatorImpl_def HelperImpl_def
      delegateABI_def getValidatorABI_def)

lemma example_addImplMethods:
  "addImplMethods lc exampleABI exampleImpl Map.empty = Inr exampleTable"
  by (simp add: exampleImpl_def exampleTable_def example_fields
      formatName_examples map_of_exampleABI validate_examples UnsafeBytesToStr_def)

lemma example_build:
  "buildIdsToMethods lc exampleABI exampleImpl = Inr exampleTable"
  by (simp add: buildIdsToMethods_def example_addImplMethods)
     (simp add: exampleABI_def exampleTable_def UnsafeBytesToStr_def example_fields)

lemma exampleTable_entries:
  "exampleTable [1, 2, 3, 4] = Some (NewMethod getValidatorABI (Sig getValidatorABI) 1)"
  "exampleTable [5, 6, 7, 8] = Some (NewMethod delegateABI (Sig delegateABI) 0)"
  by (simp_all add: exampleTable_def)

lemma example_missing_delegate:
  "buildIdsToMethods lc exampleABI [GetValidatorImpl, HelperImpl]
     = Inl (Error (Wrap ErrNoPrecompileMethodForABIMethod (go ''delegate'')))"
proof -
  have "addImplMethods lc exampleABI [GetValidatorImpl, HelperImpl] Map.empty
      = Inr [[1, 2, 3, 4] \<mapsto> NewMethod getValidatorABI (Sig getValidatorABI) 1]"
    by (simp add: example_fields formatName_examples map_of_exampleABI
        validate_examples UnsafeBytesToStr_def)
  then show ?thesis
    by (simp add: buildIdsToMethods_def)
       (simp add: exampleABI_def example_fields UnsafeBytesToStr_def)
qed

lemma example_distinct: "distinct (map fst exampleABI)"
  by (simp add: exampleABI_def go_neq)

lemma example_selectors:
  "\<forall>(k, a)\<in>set exampleABI. \<forall>(k', a')\<in>set exampleABI. ID a = ID a' \<longrightarrow> k = k'"
  by (simp add: exampleABI_def example_fields)

lemma example_unmatched:
  "\<forall>m\<in>set [GetValidatorImpl, HelperImpl]. formatName lc (implName m) \<noteq> go ''delegate''"
  by (simp add: example_fields formatName_examples go_neq)

lemma validate_one_result:
  "validateReturnTypes GetValidatorOneResult
     = Inl (Error (New (go ''precompile methods must return ([]any, error), but found wrong number of return types for precompile method'')))"
  by (simp add: validateReturnTypes_def GetValidatorOneResult_def)

lemma variant_fields:
  "implName GetValidatorOneResult = go ''GetValidator''"
  "implName GetValidatorIntSlice = go ''GetValidator''" "implFunc GetValidatorIntSlice = 1"
  "implName GetValidatorInt = go ''GetValidator''"
  by (simp_all add: GetValidatorOneResult_def GetValidatorIntSlice_def GetValidatorInt_def)

lemma map_of_collidingABI:
  "map_of collidingABI (go ''getValidator'') = Some getValidatorABI"
  by (simp add: collidingABI_def)





lemma example_contract_fields:
  "isStatefulImpl exampleContract" "\<not> isStatelessImpl exampleContract"
  "ABIMethods exampleContract = exampleABI" "reflectMethods exampleContract = exampleImpl"
  "CustomValueDecoders exampleContract = [go ''withdraw_address'' \<mapsto> 0]"
  "isStatelessImpl statelessContract" "\<not> isStatefulImpl statelessContract"
  by (simp_all add: exampleContract_def statelessContract_def Contract_CustomValueDecoders_def)

lemma example_contract_build:
  "StatefulFactory_Build lc exampleContract p log =
     (Inr (Stateful exampleContract exampleTable),
      log @ [Call_SetPlugin p, Call_buildIdsToMethods, Call_NewStateful])"
  by (simp add: StatefulFactory_Build_stateful example_contract_fields example_build)

section \<open>Name normalisation (C4)\<close>

text \<open>
  Claim C4. \<open>formatName\<close> lower-cases the first character only: the empty name stays
  empty, a non-empty name keeps its length and every character after the first, and
  its first character becomes \<open>ToLower\<close> of it, which for an ASCII capital is the
  matching small letter. \<open>GetValidator\<close> becomes \<open>getValidator\<close> and
  \<open>GetActiveValidators\<close> becomes \<open>getActiveValidators\<close>. A name whose first character
  is already lower-case (an ASCII character that is no capital letter, or a character
  beyond ASCII that the Unicode lower-case table maps to itself) is returned unchanged.
\<close>

theorem formatName_first_character_only:
  "formatName lc [] = []
   \<and> formatName lc (r # rs) = ToLower lc r # rs
   \<and> drop 1 (formatName lc name) = drop 1 name
   \<and> length (formatName lc name) = length name
   \<and> (rune_of CHR ''A'' \<le> r \<and> r \<le> rune_of CHR ''Z''
        \<longrightarrow> formatName lc (r # rs) = (r + (rune_of CHR ''a'' - rune_of CHR ''A'')) # rs)
   \<and> formatName lc (go ''GetValidator'') = go ''getValidator''
   \<and> formatName lc (go ''GetActiveValidators'') = go ''getActiveValidators''
   \<and> ((r \<le> MaxASCII \<and> \<not> (rune_of CHR ''A'' \<le> r \<and> r \<le> rune_of CHR ''Z''))
          \<or> (MaxASCII < r \<and> lc r = r)
        \<longrightarrow> formatName lc (r # rs) = r # rs)"
proof -
  have upper: "rune_of CHR ''A'' \<le> r \<and> r \<le> rune_of CHR ''Z''
      \<longrightarrow> formatName lc (r # rs) = (r + (rune_of CHR ''a'' - rune_of CHR ''A'')) # rs"
    by (simp add: formatName_Cons ToLower_ascii_upper rune_of_simps)
  have lower: "(r \<le> MaxASCII \<and> \<not> (rune_of CHR ''A'' \<le> r \<and> r \<le> rune_of CHR ''Z''))
          \<or> (MaxASCII < r \<and> lc r = r)
      \<longrightarrow> formatName lc (r # rs) = r # rs"
    by (auto simp add: formatName_Cons ToLower_ascii_other ToLower_beyond_ascii)
  show ?thesis
    using upper lower
    by (simp only: formatName_Nil formatName_Cons formatName_tail formatName_length
        formatName_GetValidator formatName_GetActiveValidators simp_thms)
qed

theorem formatName_first_character_only_witness:
  "formatName id (go ''Delegate'') = go ''delegate''
   \<and> formatName id (go ''helperSortAddrs'') = go ''helperSortAddrs''
   \<and> formatName id (233 # go ''tat'') = 233 # go ''tat''"
proof -
  have D: "go ''Delegate'' = 68 # go ''elegate''"
    and h: "go ''helperSortAddrs'' = 104 # go ''elperSortAddrs''"
    and d: "go ''delegate'' = 100 # go ''elegate''"
    by (simp_all add: go_def rune_of_def)
  have "rune_of CHR ''A'' \<le> 68 \<and> 68 \<le> rune_of CHR ''Z''
      \<longrightarrow> formatName id (68 # go ''elegate'')
          = (68 + (rune_of CHR ''a'' - rune_of CHR ''A'')) # go ''elegate''"
    using formatName_first_character_only [of id 68 "go ''elegate''"] by blast
  then have "formatName id (68 # go ''elegate'') = 100 # go ''elegate''"
    by (simp add: rune_of_simps)
  moreover have "(104 \<le> MaxASCII \<and> \<not> (rune_of CHR ''A'' \<le> 104 \<and> 104 \<le> rune_of CHR ''Z''))
          \<or> (MaxASCII < 104 \<and> id (104::int) = 104)
      \<longrightarrow> formatName id (104 # go ''elperSortAddrs'') = 104 # go ''elperSortAddrs''"
    using formatName_first_character_only [of id 104 "go ''elperSortAddrs''"] by blast
  then have "formatName id (104 # go ''elperSortAddrs'') = 104 # go ''elperSortAddrs''"
    by (simp add: rune_of_simps MaxASCII_def)
  moreover have "(233 \<le> MaxASCII \<and> \<not> (rune_of CHR ''A'' \<le> 233 \<and> 233 \<le> rune_of CHR ''Z''))
          \<or> (MaxASCII < 233 \<and> id (233::int) = 233)
      \<longrightarrow> formatName id (233 # go ''tat'') = 233 # go ''tat''"
    using formatName_first_character_only [of id 233 "go ''tat''"] by blast
  then have "formatName id (233 # go ''tat'') = 233 # go ''tat''"
    by (simp add: rune_of_simps MaxASCII_def)
  ultimately show ?thesis
    by (simp only: D h d simp_thms)
qed

section \<open>Completeness of the dispatch table (C1)\<close>

text \<open>
  Claim C1, as amended. Whenever \<open>buildIdsToMethods\<close> succeeds, the table has an entry
  under the selector of every ABI method descriptor. When it fails with the
  ``no implementation for ABI method'' error, the error names an ABI method that no
  implementation method matches: none has a normalised name equal to the name under
  which the ABI declares that method (the descriptor map has distinct keys, as every
  Go map has). Conversely, when some ABI method is matched by no implementation
  method, the build fails with that error, naming an ABI method, provided that every
  implementation method that matches an ABI name passes the return-shape validation
  and that no two ABI descriptors share a selector. Without the first proviso the
  validation error comes first; without the second the check by selector can be
  satisfied by another method's entry. \<open>StatefulFactory.Build\<close> returns every error
  of the table builder unchanged.
\<close>

theorem buildIdsToMethods_completeness:
  "(\<forall>t. buildIdsToMethods lc abi (ms :: 'f reflect_Method list) = Inr t \<longrightarrow> (\<forall>(k, a)\<in>set abi. t (ID a) \<noteq> None))
   \<and> (\<forall>n. distinct (map fst abi)
          \<and> buildIdsToMethods lc abi ms = Inl (Error (Wrap ErrNoPrecompileMethodForABIMethod n))
        \<longrightarrow> (\<exists>(k, a)\<in>set abi. Name a = n \<and> (\<forall>m\<in>set ms. formatName lc (implName m) \<noteq> k)))
   \<and> ((\<forall>(k, a)\<in>set abi. \<forall>(k', a')\<in>set abi. ID a = ID a' \<longrightarrow> k = k')
        \<and> (\<forall>m\<in>set ms. map_of abi (formatName lc (implName m)) \<noteq> None
               \<longrightarrow> validateReturnTypes m = Inr ())
        \<and> (\<exists>(k, a)\<in>set abi. \<forall>m\<in>set ms. formatName lc (implName m) \<noteq> k)
      \<longrightarrow> (\<exists>(k, a)\<in>set abi.
             buildIdsToMethods lc abi ms = Inl (Error (Wrap ErrNoPrecompileMethodForABIMethod (Name a)))))
   \<and> (\<forall>rp p log f. isStatefulImpl rp
          \<and> buildIdsToMethods lc (ABIMethods rp) (reflectMethods rp :: 'f reflect_Method list) = Inl f
        \<longrightarrow> fst (StatefulFactory_Build lc (rp :: ('f, 'd) Registrable) (p :: 'p) log) = Inl f)"
proof (intro conjI allI impI)
  fix t
  assume b: "buildIdsToMethods lc abi ms = Inr t"
  then obtain t1 where "addImplMethods lc abi ms Map.empty = Inr t1"
    and ver: "verifyABIMethods t1 abi = Inr t"
    by (auto simp add: buildIdsToMethods_def split: sum.splits)
  from verifyABIMethods_Inr [OF ver] show "\<forall>(k, a)\<in>set abi. t (ID a) \<noteq> None"
    by simp
next
  fix n
  assume h: "distinct (map fst abi)
     \<and> buildIdsToMethods lc abi ms = Inl (Error (Wrap ErrNoPrecompileMethodForABIMethod n))"
  then have dist: "distinct (map fst abi)"
    and b: "buildIdsToMethods lc abi ms = Inl (Error (Wrap ErrNoPrecompileMethodForABIMethod n))"
    by simp_all
  show "\<exists>(k, a)\<in>set abi. Name a = n \<and> (\<forall>m\<in>set ms. formatName lc (implName m) \<noteq> k)"
  proof (cases "addImplMethods lc abi ms Map.empty")
    case (Inl f)
    with b have f: "f = Error (Wrap ErrNoPrecompileMethodForABIMethod n)"
      by (simp add: buildIdsToMethods_def)
    from Inl f have "addImplMethods lc abi ms Map.empty
        = Inl (Error (Wrap ErrNoPrecompileMethodForABIMethod n))"
      by simp
    from addImplMethods_fails [OF this] have False
      by (auto simp add: Wrap_def dest!: validateReturnTypes_Error_New)
    then show ?thesis ..
  next
    case (Inr t)
    with b have "verifyABIMethods t abi = Inl (Error (Wrap ErrNoPrecompileMethodForABIMethod n))"
      by (simp add: buildIdsToMethods_def)
    from verifyABIMethods_Inl [OF this] obtain k a where
      ka: "(k, a) \<in> set abi" and n: "Name a = n" and none: "t (ID a) = None"
      by (auto simp add: Wrap_def)
    have "formatName lc (implName m) \<noteq> k" if m: "m \<in> set ms" for m
    proof
      assume "formatName lc (implName m) = k"
      with dist ka have "map_of abi (formatName lc (implName m)) = Some a"
        by simp
      from addImplMethods_matched [OF Inr m this] none show False by simp
    qed
    with ka n show ?thesis by blast
  qed
next
  assume h: "(\<forall>(k, a)\<in>set abi. \<forall>(k', a')\<in>set abi. ID a = ID a' \<longrightarrow> k = k')
        \<and> (\<forall>m\<in>set ms. map_of abi (formatName lc (implName m)) \<noteq> None
               \<longrightarrow> validateReturnTypes m = Inr ())
        \<and> (\<exists>(k, a)\<in>set abi. \<forall>m\<in>set ms. formatName lc (implName m) \<noteq> k)"
  then have inj: "\<And>k a k' a'. (k, a) \<in> set abi \<Longrightarrow> (k', a') \<in> set abi \<Longrightarrow> ID a = ID a' \<Longrightarrow> k = k'"
    and valid: "\<And>m a. m \<in> set ms \<Longrightarrow> map_of abi (formatName lc (implName m)) = Some a
                  \<Longrightarrow> validateReturnTypes m = Inr ()"
    by fastforce+
  from h obtain k a where ka: "(k, a) \<in> set abi"
    and lacks: "\<forall>m\<in>set ms. formatName lc (implName m) \<noteq> k"
    by auto
  from addImplMethods_succeeds [of ms abi lc Map.empty] valid
  obtain t where t: "addImplMethods lc abi ms Map.empty = Inr t"
    by blast
  have "t (ID a) = None"
  proof (rule ccontr)
    assume "t (ID a) \<noteq> None"
    then obtain r where "t (ID a) = Some r" by auto
    from addImplMethods_entry [OF t this] obtain m b where
      m: "m \<in> set ms" and mb: "map_of abi (formatName lc (implName m)) = Some b"
      and id: "ID a = ID b"
      by auto
    from mb have "(formatName lc (implName m), b) \<in> set abi"
      by (rule map_of_SomeD)
    from inj [OF ka this id] lacks m show False by blast
  qed
  with ka verifyABIMethods_missing [of k a abi t] obtain f where
    f: "verifyABIMethods t abi = Inl f" by auto
  from verifyABIMethods_Inl [OF this] f t show
    "\<exists>(k, a)\<in>set abi.
        buildIdsToMethods lc abi ms = Inl (Error (Wrap ErrNoPrecompileMethodForABIMethod (Name a)))"
    by (auto simp add: buildIdsToMethods_def)
next
  fix rp :: "('f, 'd) Registrable" and p :: 'p and log f
  assume "isStatefulImpl rp
     \<and> buildIdsToMethods lc (ABIMethods rp) (reflectMethods rp) = Inl f"
  then show "fst (StatefulFactory_Build lc rp p log) = Inl f"
    by (simp add: StatefulFactory_Build_stateful)
qed

theorem buildIdsToMethods_completeness_witness:
  "buildIdsToMethods id exampleABI exampleImpl = Inr exampleTable
   \<and> exampleTable (ID getValidatorABI) \<noteq> None
   \<and> exampleTable (ID delegateABI) \<noteq> None
   \<and> distinct (map fst exampleABI)
   \<and> buildIdsToMethods id exampleABI [GetValidatorImpl, HelperImpl]
        = Inl (Error (Wrap ErrNoPrecompileMethodForABIMethod (go ''delegate'')))
   \<and> (\<exists>(k, a)\<in>set exampleABI. Name a = go ''delegate''
          \<and> (\<forall>m\<in>set [GetValidatorImpl, HelperImpl]. formatName id (implName m) \<noteq> k))
   \<and> (\<exists>(k, a)\<in>set exampleABI.
         buildIdsToMethods id exampleABI [GetValidatorImpl, HelperImpl]
           = Inl (Error (Wrap ErrNoPrecompileMethodForABIMethod (Name a))))
   \<and> isStatefulImpl missingDelegateContract
   \<and> fst (StatefulFactory_Build id missingDelegateContract (0::nat) [])
        = Inl (Error (Wrap ErrNoPrecompileMethodForABIMethod (go ''delegate'')))"
proof -
  note ok = buildIdsToMethods_completeness [of id exampleABI exampleImpl]
  note missing = buildIdsToMethods_completeness [of id exampleABI "[GetValidatorImpl, HelperImpl]"]
  have built: "buildIdsToMethods id exampleABI exampleImpl = Inr exampleTable"
    by (rule example_build)
  have "\<forall>(k, a)\<in>set exampleABI. exampleTable (ID a) \<noteq> None"
    by (rule ok [THEN conjunct1, THEN spec, THEN mp, OF built])
  then have entries: "exampleTable (ID getValidatorABI) \<noteq> None"
    "exampleTable (ID delegateABI) \<noteq> None"
    by (simp_all add: exampleABI_def)
  have failed: "buildIdsToMethods id exampleABI [GetValidatorImpl, HelperImpl]
      = Inl (Error (Wrap ErrNoPrecompileMethodForABIMethod (go ''delegate'')))"
    by (rule example_missing_delegate)
  have named: "\<exists>(k, a)\<in>set exampleABI. Name a = go ''delegate''
          \<and> (\<forall>m\<in>set [GetValidatorImpl, HelperImpl]. formatName id (implName m) \<noteq> k)"
    by (rule missing [THEN conjunct2, THEN conjunct1, THEN spec, THEN mp,
          OF conjI [OF example_distinct failed]])
  have valid: "\<forall>m\<in>set [GetValidatorImpl, HelperImpl].
      map_of exampleABI (formatName id (implName m)) \<noteq> None \<longrightarrow> validateReturnTypes m = Inr ()"
    by (simp add: example_fields formatName_examples map_of_exampleABI validate_examples)
  have lacks: "\<exists>(k, a)\<in>set exampleABI.
      \<forall>m\<in>set [GetValidatorImpl, HelperImpl]. formatName id (implName m) \<noteq> k"
    using example_unmatched [of id] by (auto simp add: exampleABI_def)
  have fails: "\<exists>(k, a)\<in>set exampleABI.
         buildIdsToMethods id exampleABI [GetValidatorImpl, HelperImpl]
           = Inl (Error (Wrap ErrNoPrecompileMethodForABIMethod (Name a)))"
    by (rule missing [THEN conjunct2, THEN conjunct2, THEN conjunct1, THEN mp,
          OF conjI [OF example_selectors conjI [OF valid lacks]]])
  have st: "isStatefulImpl missingDelegateContract"
    by (simp add: missingDelegateContract_def example_contract_fields)
  have "buildIdsToMethods id (ABIMethods missingDelegateContract)
          (reflectMethods missingDelegateContract)
      = Inl (Error (Wrap ErrNoPrecompileMethodForABIMethod (go ''delegate'')))"
    using failed by (simp add: missingDelegateContract_def example_contract_fields)
  with st have "isStatefulImpl missingDelegateContract
      \<and> buildIdsToMethods id (ABIMethods missingDelegateContract)
          (reflectMethods missingDelegateContract)
        = Inl (Error (Wrap ErrNoPrecompileMethodForABIMethod (go ''delegate'')))" ..
  then have propagated: "fst (StatefulFactory_Build id missingDelegateContract (0::nat) [])
        = Inl (Error (Wrap ErrNoPrecompileMethodForABIMethod (go ''delegate'')))"
    by (rule missing [THEN conjunct2, THEN conjunct2, THEN conjunct2,
          THEN spec, THEN spec, THEN spec, THEN spec, THEN mp])
  from built entries example_distinct failed named fails st propagated show ?thesis
    by (intro conjI)
qed

theorem buildIdsToMethods_completeness_counterexample:
  "buildIdsToMethods id exampleABI [GetValidatorOneResult]
     = Inl (Error (Wrap (New (go ''precompile methods must return ([]any, error), but found wrong number of return types for precompile method''))
                     (go ''getValidator'')))
   \<and> buildIdsToMethods id exampleABI [GetValidatorOneResult]
       \<noteq> Inl (Error (Wrap ErrNoPrecompileMethodForABIMethod (go ''delegate'')))
   \<and> buildIdsToMethods id exampleABI [GetValidatorOneResult]
       \<noteq> Inl (Error (Wrap ErrNoPrecompileMethodForABIMethod (go ''getValidator'')))
   \<and> map_of exampleABI (go ''delegate'') = Some delegateABI
   \<and> Name delegateABI = go ''delegate''
   \<and> formatName id (implName GetValidatorOneResult) \<noteq> go ''delegate''
   \<and> buildIdsToMethods id collidingABI [GetValidatorImpl]
       = Inr [[1, 2, 3, 4] \<mapsto> NewMethod getValidatorABI (Sig getValidatorABI) 1]
   \<and> map_of collidingABI (go ''delegate'') = Some (delegateABI\<lparr>ID := [1, 2, 3, 4]\<rparr>)
   \<and> formatName id (implName GetValidatorImpl) \<noteq> go ''delegate''"
proof -
  have a: "buildIdsToMethods id exampleABI [GetValidatorOneResult]
     = Inl (Error (Wrap (New (go ''precompile methods must return ([]any, error), but found wrong number of return types for precompile method''))
                     (go ''getValidator'')))"
    by (simp add: buildIdsToMethods_def variant_fields formatName_examples map_of_exampleABI
        validate_one_result)
  have b: "buildIdsToMethods id collidingABI [GetValidatorImpl]
       = Inr [[1, 2, 3, 4] \<mapsto> NewMethod getValidatorABI (Sig getValidatorABI) 1]"
    by (simp add: buildIdsToMethods_def example_fields formatName_examples map_of_collidingABI
        validate_examples UnsafeBytesToStr_def)
       (simp add: collidingABI_def example_fields UnsafeBytesToStr_def)
  have c: "map_of collidingABI (go ''delegate'') = Some (delegateABI\<lparr>ID := [1, 2, 3, 4]\<rparr>)"
    by (simp add: collidingABI_def go_neq)
  have d: "formatName id (implName GetValidatorOneResult) \<noteq> go ''delegate''"
    "formatName id (implName GetValidatorImpl) \<noteq> go ''delegate''"
    by (simp_all add: variant_fields example_fields formatName_examples go_neq)
  show ?thesis
    unfolding a
    using b c d by (simp add: Wrap_def map_of_exampleABI example_fields)
qed

section \<open>Return-shape validation (C2)\<close>

text \<open>
  Claim C2, at the input where the code departs from it. A method that matches an ABI
  name and returns a slice of integers and an error is accepted by
  \<open>validateReturnTypes\<close>, and the table is built with it: the test of the first result
  joins its two conditions with ``and'', so a slice of any element type passes. With a
  plain integer as first result the test panics in \<open>Elem\<close> instead of returning the
  descriptive error. \<open>StatefulFactory.Build\<close> then produces a container for the
  implementation with the slice of integers.
\<close>

theorem validateReturnTypes_accepts_any_slice:
  "validateReturnTypes GetValidatorIntSlice = Inr ()
   \<and> buildIdsToMethods id exampleABI [DelegateImpl, GetValidatorIntSlice] = Inr exampleTable
   \<and> validateReturnTypes GetValidatorInt = Inl (Panic (go ''reflect: Elem of invalid type int''))
   \<and> buildIdsToMethods id exampleABI [DelegateImpl, GetValidatorInt]
       = Inl (Panic (go ''reflect: Elem of invalid type int''))
   \<and> fst (StatefulFactory_Build id intSliceContract (0::nat) [])
       = Inr (Stateful intSliceContract exampleTable)"
proof -
  have v: "validateReturnTypes GetValidatorIntSlice = Inr ()"
    by (simp add: validateReturnTypes_def GetValidatorIntSlice_def intSliceType_def errorType_def)
  have w: "validateReturnTypes GetValidatorInt = Inl (Panic (go ''reflect: Elem of invalid type int''))"
    by (simp add: validateReturnTypes_def GetValidatorInt_def intType_def errorType_def Elem_def
        go_def)
  have "addImplMethods id exampleABI [DelegateImpl, GetValidatorIntSlice] Map.empty = Inr exampleTable"
    by (simp add: exampleTable_def example_fields variant_fields formatName_examples
        map_of_exampleABI validate_examples v UnsafeBytesToStr_def)
  then have b: "buildIdsToMethods id exampleABI [DelegateImpl, GetValidatorIntSlice] = Inr exampleTable"
    by (simp add: buildIdsToMethods_def)
       (simp add: exampleABI_def exampleTable_def UnsafeBytesToStr_def example_fields)
  have c: "buildIdsToMethods id exampleABI [DelegateImpl, GetValidatorInt]
       = Inl (Panic (go ''reflect: Elem of invalid type int''))"
    by (simp add: buildIdsToMethods_def example_fields variant_fields formatName_examples
        map_of_exampleABI validate_examples w)
  have d: "fst (StatefulFactory_Build id intSliceContract (0::nat) [])
       = Inr (Stateful intSliceContract exampleTable)"
    by (simp add: StatefulFactory_Build_stateful intSliceContract_def example_contract_fields b)
  from v b w c d show ?thesis by (intro conjI)
qed

section \<open>Selector fidelity (C3)\<close>

text \<open>
  Claim C3. In a built table every Method Record sits under the selector bytes of its
  own ABI descriptor, taken as they are (the descriptor's \<open>ID\<close> field, whatever its
  signature string is), it stores that descriptor's signature string, and the
  descriptor is one of the ABI's. Every matched pair of an ABI descriptor and an
  implementation method has a record under the descriptor's selector, and the step
  of the loop that handles a matched, valid method inserts its record under exactly
  that key.
\<close>

theorem buildIdsToMethods_selector_fidelity:
  "(\<forall>t sel r. buildIdsToMethods lc abi (ms :: 'f reflect_Method list) = Inr t \<and> t sel = Some r
        \<longrightarrow> sel = ID (abiMethod r) \<and> abiSig r = Sig (abiMethod r)
            \<and> (\<exists>k. (k, abiMethod r) \<in> set abi))
   \<and> (\<forall>t m a. buildIdsToMethods lc abi ms = Inr t \<and> m \<in> set ms
          \<and> map_of abi (formatName lc (implName m)) = Some a
        \<longrightarrow> (\<exists>r. t (ID a) = Some r \<and> ID (abiMethod r) = ID a \<and> abiSig r = Sig (abiMethod r)))
   \<and> (\<forall>(t0 :: 'f idsToMethods) (m :: 'f reflect_Method) a.
          map_of abi (formatName lc (implName m)) = Some a
          \<and> validateReturnTypes m = Inr ()
        \<longrightarrow> addImplMethods lc abi [m] t0
              = Inr (t0(ID a \<mapsto> \<lparr>abiMethod = a, abiSig = Sig a, execute = implFunc m\<rparr>)))"
proof -
  have entry: "sel = ID (abiMethod r) \<and> abiSig r = Sig (abiMethod r)
      \<and> (\<exists>k. (k, abiMethod r) \<in> set abi)"
    if b: "buildIdsToMethods lc abi ms = Inr t" and r: "t sel = Some r" for t sel r
  proof -
    from buildIdsToMethods_Inr [OF b] have "addImplMethods lc abi ms Map.empty = Inr t" ..
    from addImplMethods_entry [OF this r] show ?thesis
      by (auto simp add: NewMethod_def dest!: map_of_SomeD)
  qed
  have matched: "\<exists>r. t (ID a) = Some r \<and> ID (abiMethod r) = ID a \<and> abiSig r = Sig (abiMethod r)"
    if b: "buildIdsToMethods lc abi ms = Inr t" and m: "m \<in> set ms"
      and a: "map_of abi (formatName lc (implName m)) = Some a" for t m a
  proof -
    from buildIdsToMethods_Inr [OF b] have "addImplMethods lc abi ms Map.empty = Inr t" ..
    from addImplMethods_matched [OF this m a] obtain r where r: "t (ID a) = Some r"
      by auto
    with entry [OF b r] show ?thesis by simp
  qed
  have step: "addImplMethods lc abi [m] t0
      = Inr (t0(ID a \<mapsto> \<lparr>abiMethod = a, abiSig = Sig a, execute = implFunc m\<rparr>))"
    if "map_of abi (formatName lc (implName m)) = Some a" "validateReturnTypes m = Inr ()"
    for t0 :: "'f idsToMethods" and m :: "'f reflect_Method" and a
    using that by (simp add: UnsafeBytesToStr_def NewMethod_def)
  from entry matched step show ?thesis by blast
qed

theorem buildIdsToMethods_selector_fidelity_witness:
  "buildIdsToMethods id exampleABI exampleImpl = Inr exampleTable
   \<and> exampleTable [1, 2, 3, 4] = Some (NewMethod getValidatorABI (Sig getValidatorABI) 1)
   \<and> [1, 2, 3, 4] = ID (abiMethod (NewMethod getValidatorABI (Sig getValidatorABI) (1::nat)))
   \<and> abiSig (NewMethod getValidatorABI (Sig getValidatorABI) (1::nat)) = go ''getValidator(address)''
   \<and> DelegateImpl \<in> set exampleImpl
   \<and> map_of exampleABI (formatName id (implName DelegateImpl)) = Some delegateABI
   \<and> (\<exists>r. exampleTable (ID delegateABI) = Some r \<and> ID (abiMethod r) = ID delegateABI
          \<and> abiSig r = Sig (abiMethod r))
   \<and> validateReturnTypes DelegateImpl = Inr ()
   \<and> addImplMethods id exampleABI [DelegateImpl] Map.empty
       = Inr [ID delegateABI \<mapsto>
               \<lparr>abiMethod = delegateABI, abiSig = Sig delegateABI, execute = implFunc DelegateImpl\<rparr>]"
proof -
  note inst = buildIdsToMethods_selector_fidelity [of id exampleABI exampleImpl]
  have built: "buildIdsToMethods id exampleABI exampleImpl = Inr exampleTable"
    by (rule example_build)
  have e1: "exampleTable [1, 2, 3, 4] = Some (NewMethod getValidatorABI (Sig getValidatorABI) 1)"
    by (rule exampleTable_entries)
  from inst [THEN conjunct1, rule_format, OF conjI [OF built e1]]
  have "[1, 2, 3, 4] = ID (abiMethod (NewMethod getValidatorABI (Sig getValidatorABI) (1::nat)))
      \<and> abiSig (NewMethod getValidatorABI (Sig getValidatorABI) (1::nat))
          = Sig (abiMethod (NewMethod getValidatorABI (Sig getValidatorABI) (1::nat)))"
    by simp
  then have f: "[1, 2, 3, 4] = ID (abiMethod (NewMethod getValidatorABI (Sig getValidatorABI) (1::nat)))"
    "abiSig (NewMethod getValidatorABI (Sig getValidatorABI) (1::nat)) = go ''getValidator(address)''"
    by (simp_all add: NewMethod_def getValidatorABI_def)
  have mem: "DelegateImpl \<in> set exampleImpl"
    by (simp add: exampleImpl_def)
  have look: "map_of exampleABI (formatName id (implName DelegateImpl)) = Some delegateABI"
    by (simp add: example_fields formatName_examples map_of_exampleABI)
  have m: "\<exists>r. exampleTable (ID delegateABI) = Some r \<and> ID (abiMethod r) = ID delegateABI
          \<and> abiSig r = Sig (abiMethod r)"
    by (rule inst [THEN conjunct2, THEN conjunct1, rule_format,
          OF conjI [OF built conjI [OF mem look]]])
  have v: "validateReturnTypes DelegateImpl = Inr ()"
    by (rule validate_examples)
  have s: "addImplMethods id exampleABI [DelegateImpl] Map.empty
       = Inr [ID delegateABI \<mapsto>
               \<lparr>abiMethod = delegateABI, abiSig = Sig delegateABI, execute = implFunc DelegateImpl\<rparr>]"
    by (rule inst [THEN conjunct2, THEN conjunct2, rule_format, OF conjI [OF look v]])
  from built e1 f mem look m v s show ?thesis
    by (intro conjI)
qed

section \<open>Isolation of methods that are not in the ABI (C6)\<close>

text \<open>
  Claim C6. An implementation method whose normalised name is no key of the ABI
  descriptor set is skipped: wherever it stands among the methods, the result of
  \<open>buildIdsToMethods\<close> (the error as well as the table) is the one obtained without it,
  and the result is the one obtained from the ABI-matching methods alone, so such a
  method never makes the build fail and adds no entry. Every record of a built table
  was made from an ABI descriptor and an implementation method that matches it, under
  that descriptor's selector: no selector leads to a helper method. The same holds for
  \<open>StatefulFactory.Build\<close>, whose result is determined by the ABI-matching methods.
\<close>

theorem non_ABI_methods_isolated:
  "(\<forall>(h :: 'f reflect_Method) xs ys. map_of abi (formatName lc (implName h)) = None
        \<longrightarrow> buildIdsToMethods lc abi (xs @ h # ys) = buildIdsToMethods lc abi (xs @ ys))
   \<and> buildIdsToMethods lc abi
        (filter (\<lambda>m. map_of abi (formatName lc (implName m)) \<noteq> None) ms)
       = buildIdsToMethods lc abi (ms :: 'f reflect_Method list)
   \<and> (\<forall>t sel r. buildIdsToMethods lc abi ms = Inr t \<and> t sel = Some r
        \<longrightarrow> (\<exists>m\<in>set ms. \<exists>a. map_of abi (formatName lc (implName m)) = Some a
               \<and> sel = ID a \<and> r = NewMethod a (Sig a) (implFunc m)))
   \<and> (isStatefulImpl (rp :: ('f, 'd) Registrable)
        \<longrightarrow> fst (StatefulFactory_Build lc rp p log)
            = (case buildIdsToMethods lc (ABIMethods rp)
                      (filter (\<lambda>m. map_of (ABIMethods rp) (formatName lc (implName m)) \<noteq> None)
                         (reflectMethods rp)) of
                 Inl f \<Rightarrow> Inl f
               | Inr t \<Rightarrow> Inr (Stateful rp t)))"
proof -
  have skip: "buildIdsToMethods lc abi (xs @ h # ys) = buildIdsToMethods lc abi (xs @ ys)"
    if "map_of abi (formatName lc (implName h)) = None" for h :: "'f reflect_Method" and xs ys
    using that by (simp add: buildIdsToMethods_def addImplMethods_skip)
  have filt: "buildIdsToMethods lc abi
        (filter (\<lambda>m. map_of abi (formatName lc (implName m)) \<noteq> None) ms)
       = buildIdsToMethods lc abi ms"
    by (simp only: buildIdsToMethods_def addImplMethods_filter)
  have entry: "\<exists>m\<in>set ms. \<exists>a. map_of abi (formatName lc (implName m)) = Some a
               \<and> sel = ID a \<and> r = NewMethod a (Sig a) (implFunc m)"
    if b: "buildIdsToMethods lc abi ms = Inr t" and r: "t sel = Some r" for t sel r
  proof -
    from buildIdsToMethods_Inr [OF b] have "addImplMethods lc abi ms Map.empty = Inr t" ..
    from addImplMethods_entry [OF this r] show ?thesis by auto
  qed
  have build: "fst (StatefulFactory_Build lc rp p log)
            = (case buildIdsToMethods lc (ABIMethods rp)
                      (filter (\<lambda>m. map_of (ABIMethods rp) (formatName lc (implName m)) \<noteq> None)
                         (reflectMethods rp)) of
                 Inl f \<Rightarrow> Inl f
               | Inr t \<Rightarrow> Inr (Stateful rp t))"
    if "isStatefulImpl rp"
  proof -
    from that have "fst (StatefulFactory_Build lc rp p log)
        = (case buildIdsToMethods lc (ABIMethods rp) (reflectMethods rp) of
             Inl f \<Rightarrow> Inl f
           | Inr t \<Rightarrow> Inr (Stateful rp t))"
      by (simp add: StatefulFactory_Build_def GetAs_StatefulImpl_def NewStateful_def Let_def
          split: sum.splits)
    then show ?thesis
      by (simp only: buildIdsToMethods_def addImplMethods_filter)
  qed
  from skip filt entry build show ?thesis by blast
qed

theorem non_ABI_methods_isolated_witness:
  "map_of exampleABI (formatName id (implName HelperImpl)) = None
   \<and> buildIdsToMethods id exampleABI ([DelegateImpl, GetValidatorImpl] @ HelperImpl # [])
       = buildIdsToMethods id exampleABI ([DelegateImpl, GetValidatorImpl] @ [])
   \<and> buildIdsToMethods id exampleABI exampleImpl = Inr exampleTable
   \<and> exampleTable [5, 6, 7, 8] = Some (NewMethod delegateABI (Sig delegateABI) 0)
   \<and> (\<exists>m\<in>set exampleImpl. \<exists>a. map_of exampleABI (formatName id (implName m)) = Some a
          \<and> [5, 6, 7, 8] = ID a
          \<and> NewMethod delegateABI (Sig delegateABI) 0 = NewMethod a (Sig a) (implFunc m))
   \<and> isStatefulImpl exampleContract
   \<and> fst (StatefulFactory_Build id exampleContract (0::nat) [])
       = (case buildIdsToMethods id (ABIMethods exampleContract)
                 (filter (\<lambda>m. map_of (ABIMethods exampleContract) (formatName id (implName m)) \<noteq> None)
                    (reflectMethods exampleContract)) of
            Inl f \<Rightarrow> Inl f
          | Inr t \<Rightarrow> Inr (Stateful exampleContract t))"
proof -
  note inst = non_ABI_methods_isolated [of exampleABI id exampleImpl]
  note inst' = non_ABI_methods_isolated [of exampleABI id exampleImpl exampleContract "0::nat" "[]"]
  have none: "map_of exampleABI (formatName id (implName HelperImpl)) = None"
    by (simp add: example_fields formatName_examples map_of_exampleABI)
  have skip: "buildIdsToMethods id exampleABI ([DelegateImpl, GetValidatorImpl] @ HelperImpl # [])
       = buildIdsToMethods id exampleABI ([DelegateImpl, GetValidatorImpl] @ [])"
    by (rule inst [THEN conjunct1, rule_format, OF none])
  have built: "buildIdsToMethods id exampleABI exampleImpl = Inr exampleTable"
    by (rule example_build)
  have e: "exampleTable [5, 6, 7, 8] = Some (NewMethod delegateABI (Sig delegateABI) 0)"
    by (rule exampleTable_entries)
  have from_abi: "\<exists>m\<in>set exampleImpl. \<exists>a. map_of exampleABI (formatName id (implName m)) = Some a
          \<and> [5, 6, 7, 8] = ID a
          \<and> NewMethod delegateABI (Sig delegateABI) 0 = NewMethod a (Sig a) (implFunc m)"
    by (rule inst [THEN conjunct2, THEN conjunct2, THEN conjunct1, rule_format,
          OF conjI [OF built e]])
  have st: "isStatefulImpl exampleContract"
    by (simp add: exampleContract_def)
  have b: "fst (StatefulFactory_Build id exampleContract (0::nat) [])
       = (case buildIdsToMethods id (ABIMethods exampleContract)
                 (filter (\<lambda>m. map_of (ABIMethods exampleContract) (formatName id (implName m)) \<noteq> None)
                    (reflectMethods exampleContract)) of
            Inl f \<Rightarrow> Inl f
          | Inr t \<Rightarrow> Inr (Stateful exampleContract t))"
    by (rule inst' [THEN conjunct2, THEN conjunct2, THEN conjunct2, rule_format, OF st])
  from none skip built e from_abi st b show ?thesis
    by (intro conjI)
qed

section \<open>Two methods that normalise to one name (C8)\<close>



section \<open>The factories (C5, C7, C9)\<close>

text \<open>
  Claim C5. \<open>StatelessFactory.Build\<close> succeeds exactly when the implementation has the
  stateless capability, and then the container is the implementation itself, with no
  table; otherwise it fails with the wrong-container-factory error wrapped with
  \<open>StatelessContainerImpl\<close>. \<open>StatefulFactory.Build\<close> fails with the same error wrapped
  with \<open>StatefulContainerImpl\<close> when the implementation lacks the stateful capability
  (and then calls nothing), and it yields a container only for an implementation that
  has it. A failure is a result without a container.
\<close>

theorem factory_capability_dispatch:
  "((\<exists>c. StatelessFactory_Build rp p = Inr c) \<longleftrightarrow> isStatelessImpl rp)
   \<and> (isStatelessImpl rp \<longrightarrow> StatelessFactory_Build rp p = Inr (Stateless rp))
   \<and> (\<not> isStatelessImpl rp
        \<longrightarrow> StatelessFactory_Build rp p
            = Inl (Error (Wrap ErrWrongContainerFactory (go ''StatelessContainerImpl''))))
   \<and> (\<not> isStatefulImpl rp
        \<longrightarrow> StatefulFactory_Build lc rp q log
            = (Inl (Error (Wrap ErrWrongContainerFactory (go ''StatefulContainerImpl''))), log))
   \<and> ((\<exists>c. fst (StatefulFactory_Build lc rp q log) = Inr c) \<longrightarrow> isStatefulImpl rp)"
proof -
  have only: "isStatefulImpl rp" if "\<exists>c. fst (StatefulFactory_Build lc rp q log) = Inr c"
  proof (rule ccontr)
    assume "\<not> isStatefulImpl rp"
    with that show False
      by (simp add: StatefulFactory_Build_not_stateful)
  qed
  then show ?thesis
    by (auto simp add: StatelessFactory_Build_def GetAs_StatelessImpl_def
        statelessContainerName_def StatefulFactory_Build_not_stateful)
qed

theorem factory_capability_dispatch_witness:
  "isStatelessImpl statelessContract
   \<and> StatelessFactory_Build statelessContract (0::nat) = Inr (Stateless statelessContract)
   \<and> \<not> isStatefulImpl statelessContract
   \<and> StatefulFactory_Build id statelessContract (0::nat) []
       = (Inl (Error (Wrap ErrWrongContainerFactory (go ''StatefulContainerImpl''))), [])
   \<and> \<not> isStatelessImpl exampleContract
   \<and> StatelessFactory_Build exampleContract (0::nat)
       = Inl (Error (Wrap ErrWrongContainerFactory (go ''StatelessContainerImpl'')))
   \<and> fst (StatefulFactory_Build id exampleContract (0::nat) [])
       = Inr (Stateful exampleContract exampleTable)
   \<and> isStatefulImpl exampleContract"
proof -
  note less = factory_capability_dispatch [of statelessContract "0::nat" id "0::nat" "[]"]
  note full = factory_capability_dispatch [of exampleContract "0::nat" id "0::nat" "[]"]
  have a: "isStatelessImpl statelessContract" and b: "\<not> isStatefulImpl statelessContract"
    and c: "\<not> isStatelessImpl exampleContract"
    by (simp_all add: example_contract_fields)
  have built: "fst (StatefulFactory_Build id exampleContract (0::nat) [])
       = Inr (Stateful exampleContract exampleTable)"
    by (simp add: example_contract_build)
  then have ex: "\<exists>c. fst (StatefulFactory_Build id exampleContract (0::nat) []) = Inr c"
    by simp
  from a less [THEN conjunct2, THEN conjunct1, rule_format, OF a] b
    less [THEN conjunct2, THEN conjunct2, THEN conjunct2, THEN conjunct1, rule_format, OF b]
    c full [THEN conjunct2, THEN conjunct2, THEN conjunct1, rule_format, OF c]
    built
    full [THEN conjunct2, THEN conjunct2, THEN conjunct2, THEN conjunct2, rule_format, OF ex]
  show ?thesis
    by (intro conjI)
qed

text \<open>
  Claim C7. For an implementation with the stateful capability, \<open>StatefulFactory.Build\<close>
  calls \<open>SetPlugin\<close> with the plugin first, then the table builder, and \<open>SetPlugin\<close> not
  again: the calls it adds to the log start with these two and hold no further
  \<open>SetPlugin\<close>, whether the table builder succeeds or fails. A container is returned
  only after the three calls \<open>SetPlugin\<close>, table builder, \<open>NewStateful\<close>, in this order,
  so no container (hence no \<open>Invoke\<close>) exists before the plugin is attached. Without
  the capability nothing is called.
\<close>

theorem SetPlugin_once_before_table_builder:
  "(isStatefulImpl rp
      \<longrightarrow> (\<exists>rest. snd (StatefulFactory_Build lc rp p log)
                     = log @ Call_SetPlugin p # Call_buildIdsToMethods # rest
                 \<and> filter is_SetPlugin rest = []))
   \<and> (\<forall>c. fst (StatefulFactory_Build lc rp p log) = Inr c
        \<longrightarrow> snd (StatefulFactory_Build lc rp p log)
            = log @ [Call_SetPlugin p, Call_buildIdsToMethods, Call_NewStateful])
   \<and> (\<not> isStatefulImpl rp \<longrightarrow> snd (StatefulFactory_Build lc rp p log) = log)"
proof (intro conjI impI allI)
  assume "isStatefulImpl rp"
  then show "\<exists>rest. snd (StatefulFactory_Build lc rp p log)
                     = log @ Call_SetPlugin p # Call_buildIdsToMethods # rest
                 \<and> filter is_SetPlugin rest = []"
    by (cases "buildIdsToMethods lc (ABIMethods rp) (reflectMethods rp)")
       (simp_all add: StatefulFactory_Build_stateful)
next
  fix c
  assume ok: "fst (StatefulFactory_Build lc rp p log) = Inr c"
  show "snd (StatefulFactory_Build lc rp p log)
      = log @ [Call_SetPlugin p, Call_buildIdsToMethods, Call_NewStateful]"
  proof (cases "isStatefulImpl rp")
    case True
    with ok show ?thesis
      by (cases "buildIdsToMethods lc (ABIMethods rp) (reflectMethods rp)")
         (simp_all add: StatefulFactory_Build_stateful)
  next
    case False
    with ok show ?thesis
      by (simp add: StatefulFactory_Build_not_stateful)
  qed
next
  assume "\<not> isStatefulImpl rp"
  then show "snd (StatefulFactory_Build lc rp p log) = log"
    by (simp add: StatefulFactory_Build_not_stateful)
qed

theorem SetPlugin_once_before_table_builder_witness:
  "isStatefulImpl exampleContract
   \<and> (\<exists>rest. snd (StatefulFactory_Build id exampleContract (7::nat) [])
                 = [] @ Call_SetPlugin 7 # Call_buildIdsToMethods # rest
             \<and> filter is_SetPlugin rest = [])
   \<and> fst (StatefulFactory_Build id exampleContract (7::nat) [])
        = Inr (Stateful exampleContract exampleTable)
   \<and> snd (StatefulFactory_Build id exampleContract (7::nat) [])
        = [] @ [Call_SetPlugin 7, Call_buildIdsToMethods, Call_NewStateful]
   \<and> \<not> isStatefulImpl statelessContract
   \<and> snd (StatefulFactory_Build id statelessContract (7::nat) []) = []"
proof -
  note full = SetPlugin_once_before_table_builder [of exampleContract id "7::nat" "[]"]
  note less = SetPlugin_once_before_table_builder [of statelessContract id "7::nat" "[]"]
  have a: "isStatefulImpl exampleContract" and b: "\<not> isStatefulImpl statelessContract"
    by (simp_all add: example_contract_fields)
  have built: "fst (StatefulFactory_Build id exampleContract (7::nat) [])
        = Inr (Stateful exampleContract exampleTable)"
    by (simp add: example_contract_build)
  from a full [THEN conjunct1, rule_format, OF a] built
    full [THEN conjunct2, THEN conjunct1, rule_format, OF built]
    b less [THEN conjunct2, THEN conjunct2, rule_format, OF b]
  show ?thesis
    by (intro conjI)
qed

text \<open>
  Claim C9. The distribution contract's \<open>CustomValueDecoders\<close> returns the mapping with
  the single entry from the withdraw-address attribute key to the bech32 decoder,
  whatever the state of the contract, hence the same on every call. The factories
  hand the decoders on as declared: the implementation inside a built container has
  the decoders of the implementation that was given, and whether
  \<open>StatefulFactory.Build\<close> succeeds does not depend on the decoders at all.
\<close>

theorem CustomValueDecoders_passed_through:
  "Contract_CustomValueDecoders key dec c = [key \<mapsto> dec]
   \<and> Contract_CustomValueDecoders key dec c = Contract_CustomValueDecoders key dec c'
   \<and> dom (Contract_CustomValueDecoders key dec c) = {key}
   \<and> (\<forall>cont. fst (StatefulFactory_Build lc rp p log) = Inr cont
        \<longrightarrow> CustomValueDecoders (registrable cont) = CustomValueDecoders rp)
   \<and> (\<forall>cont. StatelessFactory_Build rp p = Inr cont
        \<longrightarrow> CustomValueDecoders (registrable cont) = CustomValueDecoders rp)
   \<and> (\<forall>d. isl (fst (StatefulFactory_Build lc (rp\<lparr>CustomValueDecoders := d\<rparr>) p log))
            = isl (fst (StatefulFactory_Build lc rp p log)))"
proof -
  have stateful: "CustomValueDecoders (registrable cont) = CustomValueDecoders rp"
    if "fst (StatefulFactory_Build lc rp p log) = Inr cont" for cont
    using that
    by (auto simp add: StatefulFactory_Build_def GetAs_StatefulImpl_def NewStateful_def Let_def
        split: if_splits sum.splits)
  have stateless: "CustomValueDecoders (registrable cont) = CustomValueDecoders rp"
    if "StatelessFactory_Build rp p = Inr cont" for cont
    using that
    by (auto simp add: StatelessFactory_Build_def GetAs_StatelessImpl_def split: if_splits)
  have indep: "isl (fst (StatefulFactory_Build lc (rp\<lparr>CustomValueDecoders := d\<rparr>) p log))
            = isl (fst (StatefulFactory_Build lc rp p log))" for d
    by (simp add: StatefulFactory_Build_def GetAs_StatefulImpl_def NewStateful_def Let_def
        split: sum.splits)
  from stateful stateless indep show ?thesis
    by (simp add: Contract_CustomValueDecoders_def)
qed

theorem CustomValueDecoders_passed_through_witness:
  "fst (StatefulFactory_Build id exampleContract (0::nat) [])
     = Inr (Stateful exampleContract exampleTable)
   \<and> CustomValueDecoders (registrable (Stateful exampleContract exampleTable))
       = CustomValueDecoders exampleContract
   \<and> CustomValueDecoders exampleContract = [go ''withdraw_address'' \<mapsto> 0]
   \<and> StatelessFactory_Build statelessContract (0::nat) = Inr (Stateless statelessContract)
   \<and> CustomValueDecoders (registrable (Stateless statelessContract))
       = CustomValueDecoders statelessContract"
proof -
  note full = CustomValueDecoders_passed_through [of "go ''withdraw_address''" "0::nat" "()" "()"
      id exampleContract "0::nat" "[]"]
  note less = CustomValueDecoders_passed_through [of "go ''withdraw_address''" "0::nat" "()" "()"
      id statelessContract "0::nat" "[]"]
  have built: "fst (StatefulFactory_Build id exampleContract (0::nat) [])
     = Inr (Stateful exampleContract exampleTable)"
    by (simp add: example_contract_build)
  have sl: "StatelessFactory_Build statelessContract (0::nat) = Inr (Stateless statelessContract)"
    by (simp add: StatelessFactory_Build_def GetAs_StatelessImpl_def example_contract_fields)
  have decl: "CustomValueDecoders exampleContract = [go ''withdraw_address'' \<mapsto> 0]"
    using full [THEN conjunct1] by (simp add: exampleContract_def)
  from built
    full [THEN conjunct2, THEN conjunct2, THEN conjunct2, THEN conjunct1, rule_format, OF built]
    decl sl
    less [THEN conjunct2, THEN conjunct2, THEN conjunct2, THEN conjunct2, THEN conjunct1,
      rule_format, OF sl]
  show ?thesis
    by (intro conjI)
qed

section \<open>The staking contract's variadic methods (C10)\<close>

text \<open>
  Claim C10. \<open>GetValidatorAddrInput\<close> and \<open>GetDelegatorValidatorsAddrInput\<close> read
  \<open>args[0]\<close> without checking the length. With at least one argument they return the
  invalid-hex-address error when the first argument is no address, and otherwise the
  result of the query helper on the converted address. With no argument the index
  expression panics, so the methods return only for a non-empty argument list.
\<close>

theorem variadic_first_argument_checked_by_type_only:
  "(\<forall>a rest. GetValidatorAddrInput vh vs ctx evm caller val (a # rest)
        = (case GetAs_Address a of
             None \<Rightarrow> Inl (Error ErrInvalidHexAddress)
           | Some v \<Rightarrow> vh ctx (vs v)))
   \<and> (\<forall>a rest. GetDelegatorValidatorsAddrInput dh bs ctx evm caller val (a # rest)
        = (case GetAs_Address a of
             None \<Rightarrow> Inl (Error ErrInvalidHexAddress)
           | Some d \<Rightarrow> dh ctx (bs d)))
   \<and> (\<forall>a rest. (\<forall>v. a \<noteq> AnyAddress v)
        \<longrightarrow> GetValidatorAddrInput vh vs ctx evm caller val (a # rest)
              = Inl (Error ErrInvalidHexAddress)
          \<and> GetDelegatorValidatorsAddrInput dh bs ctx evm caller val (a # rest)
              = Inl (Error ErrInvalidHexAddress))
   \<and> (\<forall>v rest. GetValidatorAddrInput vh vs ctx evm caller val (AnyAddress v # rest)
              = vh ctx (vs v)
          \<and> GetDelegatorValidatorsAddrInput dh bs ctx evm caller val (AnyAddress v # rest)
              = dh ctx (bs v))
   \<and> GetValidatorAddrInput vh vs ctx evm caller val []
       = Inl (Panic (go ''runtime error: index out of range [0] with length 0''))
   \<and> GetDelegatorValidatorsAddrInput dh bs ctx evm caller val []
       = Inl (Panic (go ''runtime error: index out of range [0] with length 0''))"
proof -
  have none: "GetAs_Address a = None" if "\<forall>v. a \<noteq> AnyAddress v" for a
    using that by (cases a) simp_all
  have empty: "index ([] :: any list) 0
      = Inl (Panic (go ''runtime error: index out of range [0] with length 0''))"
    by (simp add: index_def go_def rune_of_def)
  have first: "index (a # rest) 0 = Inr a" for a :: any and rest
    by (simp add: index_def)
  show ?thesis
    by (simp add: GetValidatorAddrInput_def GetDelegatorValidatorsAddrInput_def empty first none)
qed

theorem variadic_first_argument_checked_by_type_only_witness:
  "GetValidatorAddrInput (\<lambda>ctx s. Inr [AnyString s]) (\<lambda>a. go ''val'') () () [] 0
       (AnyBool True # [])
     = Inl (Error ErrInvalidHexAddress)
   \<and> GetDelegatorValidatorsAddrInput (\<lambda>ctx s. Inr [AnyString s]) (\<lambda>a. go ''del'') () () [] 0
       (AnyBool True # [])
     = Inl (Error ErrInvalidHexAddress)"
proof -
  have "AnyBool True \<noteq> AnyAddress v" for v by simp
  from variadic_first_argument_checked_by_type_only
    [of "\<lambda>ctx s. Inr [AnyString s]" "\<lambda>a. go ''val''" "()" "()" "[]" 0
        "\<lambda>ctx s. Inr [AnyString s]" "\<lambda>a. go ''del''",
      THEN conjunct2, THEN conjunct2, THEN conjunct1, rule_format, OF this]
  show ?thesis .
qed

end
